theory Spec2Isabelle
  imports Main
begin

section \<open>The streaming codec client of pkg/compressor\<close>

text \<open>
  The package turns a pair of transform constructors into two asynchronous operations,
  \<open>Compress\<close> and \<open>Decompress\<close>. Each call makes an in-process pipe and a buffered error
  channel of capacity one, and (usually) starts a goroutine that copies the input through
  the transform into the pipe and then sends its result on the channel.

  The embedding keeps the source's structure. Go interfaces become HOL values:
  \<^item> an \<open>error\<close> is a value of the datatype \<open>error\<close>; the Go \<open>nil\<close> error is \<open>None\<close>;
  \<^item> an \<open>io.Reader\<close> is the sequence of results its \<open>Read\<close> calls return;
  \<^item> an \<open>io.WriteCloser\<close> is an object with the two methods \<open>Write\<close> and \<open>Close\<close>, acting
    on the pipe of the call; \<open>Write\<close> also returns the object in its next state;
  \<^item> a \<open>nil\<close> function value is \<open>None\<close>, and calling it is the result \<open>Panic\<close>.
\<close>

subsection \<open>Errors\<close>

type_synonym bytes = string

text \<open>
  \<open>ErrorString s\<close> is an error made by \<open>errors.New\<close> or by \<open>fmt.Errorf\<close> without \<open>%w\<close>;
  \<open>Wrapped p e\<close> is \<open>fmt.Errorf(p + "%w", e)\<close>.
\<close>

datatype error = ErrorString string | Wrapped string error

fun Error :: "error \<Rightarrow> string" where
  "Error (ErrorString s) = s"
| "Error (Wrapped p e) = p @ Error e"

definition context_Canceled :: error where
  "context_Canceled = ErrorString ''context canceled''"

definition io_ErrClosedPipe :: error where
  "io_ErrClosedPipe = ErrorString ''io: read/write on closed pipe''"

datatype 'a go = Panic | Returns 'a

subsection \<open>Strings\<close>

fun HasPrefix :: "string \<Rightarrow> string \<Rightarrow> bool" where
  "HasPrefix s [] = True"
| "HasPrefix [] (p # ps) = False"
| "HasPrefix (c # s) (p # ps) = (c = p \<and> HasPrefix s ps)"

fun Contains :: "string \<Rightarrow> string \<Rightarrow> bool" where
  "Contains [] substr = (substr = [])"
| "Contains (c # s) substr = (HasPrefix (c # s) substr \<or> Contains s substr)"

text \<open>
  The verb \<open>%q\<close> of \<open>fmt\<close> prints a string with \<open>strconv.Quote\<close>: between double quotes,
  with the double quote and the backslash backslashed, printable characters as they are
  and control characters escaped. The bytes below \<open>0x80\<close> are modelled in full. A byte from
  \<open>0x80\<close> on starts a UTF-8 sequence whose treatment depends on the Unicode tables of the
  Go library: the parameter \<open>quoteRune\<close> stands for it, and returns the text printed for
  the rune that starts the given string and the number of further bytes it takes.
\<close>

definition lowerhex :: "nat \<Rightarrow> char" where
  "lowerhex n = ''0123456789abcdef'' ! (n mod 16)"

definition IsPrint :: "char \<Rightarrow> bool" where
  "IsPrint r = (0x20 \<le> (of_char r :: nat) \<and> (of_char r :: nat) \<le> 0x7E)"

definition appendEscapedRune :: "char \<Rightarrow> string" where
  "appendEscapedRune r =
     (if r = CHR 0x22 \<or> r = CHR 0x5C then [CHR 0x5C, r]
      else if IsPrint r then [r]
      else if r = CHR 0x07 then [CHR 0x5C, CHR ''a'']
      else if r = CHR 0x08 then [CHR 0x5C, CHR ''b'']
      else if r = CHR 0x0C then [CHR 0x5C, CHR ''f'']
      else if r = CHR 0x0A then [CHR 0x5C, CHR ''n'']
      else if r = CHR 0x0D then [CHR 0x5C, CHR ''r'']
      else if r = CHR 0x09 then [CHR 0x5C, CHR ''t'']
      else if r = CHR 0x0B then [CHR 0x5C, CHR ''v'']
      else [CHR 0x5C, CHR ''x'', lowerhex (of_char r div 16), lowerhex (of_char r mod 16)])"

fun appendQuoted :: "(string \<Rightarrow> string \<times> nat) \<Rightarrow> string \<Rightarrow> string" where
  "appendQuoted quoteRune [] = []"
| "appendQuoted quoteRune (c # s) =
     (if (of_char c :: nat) < 0x80 then appendEscapedRune c @ appendQuoted quoteRune s
      else fst (quoteRune (c # s)) @ appendQuoted quoteRune (drop (snd (quoteRune (c # s))) s))"

definition strconv_Quote :: "(string \<Rightarrow> string \<times> nat) \<Rightarrow> string \<Rightarrow> string" where
  "strconv_Quote quoteRune s = CHR 0x22 # appendQuoted quoteRune s @ [CHR 0x22]"

subsection \<open>The pipe, writers and readers\<close>

text \<open>
  \<open>io.Pipe()\<close> gives a write end and a read end. \<open>pdata\<close> holds the bytes the write end
  has accepted, in order: they are what the read end delivers. \<open>wclosed\<close> says that the
  write end is closed, which is what lets a reader see end-of-stream.

  The pipe has no buffer: a write returns once a reader has taken the bytes. \<open>unread\<close>
  says that nobody reads the read end. A call makes its pipe with \<open>unread = False\<close>, a
  caller that reads the output; \<open>left_unread\<close> below runs the goroutine with nobody
  reading. \<open>blocked\<close> records that a write is waiting for ever.

  Both ends are wrapped with the context of the call. \<open>cancel_after\<close> is what the write
  end sees of that context: \<open>None\<close> when the context is never cancelled, \<open>Some k\<close> when
  the write end accepts \<open>k\<close> more writes before it finds the context cancelled.
\<close>

record pipe =
  pdata :: bytes
  wclosed :: bool
  cancel_after :: "nat option"
  unread :: bool
  blocked :: bool

definition io_Pipe :: "nat option \<Rightarrow> pipe" where
  "io_Pipe ctx =
     \<lparr>pdata = [], wclosed = False, cancel_after = ctx, unread = False, blocked = False\<rparr>"

text \<open>
  A write on the context-aware write end fails with the context's error once the context
  is cancelled and with \<open>io.ErrClosedPipe\<close> once the write end is closed. With nobody
  reading, the write waits: until the context is cancelled, when it returns the context's
  error, or for ever when the context is never cancelled. A write that waits for ever
  does not return: the model marks the pipe \<open>blocked\<close>, and \<open>left_unread\<close> discards what
  is computed after that. Closing the write end always returns \<open>nil\<close>, also when it is
  closed already.
\<close>

definition pipe_Write :: "bytes \<Rightarrow> pipe \<Rightarrow> error option \<times> pipe" where
  "pipe_Write b p =
     (if cancel_after p = Some 0 then (Some context_Canceled, p)
      else if wclosed p then (Some io_ErrClosedPipe, p)
      else if unread p then
        (case cancel_after p of
           None \<Rightarrow> (None, p\<lparr>blocked := True\<rparr>)
         | Some k \<Rightarrow> (Some context_Canceled, p\<lparr>cancel_after := Some 0\<rparr>))
      else (None, p\<lparr>pdata := pdata p @ b,
                     cancel_after := map_option (\<lambda>k. k - 1) (cancel_after p)\<rparr>))"

definition pipe_Close :: "pipe \<Rightarrow> error option \<times> pipe" where
  "pipe_Close p = (None, p\<lparr>wclosed := True\<rparr>)"

codatatype writer =
  Writer (Write: "bytes \<Rightarrow> pipe \<Rightarrow> error option \<times> writer \<times> pipe")
         (Close: "pipe \<Rightarrow> error option \<times> pipe")

text \<open>\<open>ioutil.NewContextWriteCloser(ctx, pipeWriter)\<close>: the write end as an object.\<close>

primcorec ctxWriteCloser :: writer where
  "Write ctxWriteCloser = (\<lambda>b p. (fst (pipe_Write b p), ctxWriteCloser, snd (pipe_Write b p)))"
| "Close ctxWriteCloser = pipe_Close"

text \<open>
  A reader is the list of the results of its successive \<open>Read\<close> calls: the bytes read and
  whether the call returned no error (\<open>More\<close>), \<open>io.EOF\<close> or another error. A reader whose
  list is used up returns \<open>io.EOF\<close>. A \<open>ReadCloser\<close> adds the result of \<open>Close\<close>.
\<close>

datatype rstatus = More | EOF | Failed error

type_synonym reader = "(bytes \<times> rstatus) list"

record readcloser =
  reads :: reader
  close_result :: "error option"

definition io_NopCloser :: "reader \<Rightarrow> readcloser" where
  "io_NopCloser r = \<lparr>reads = r, close_result = None\<rparr>"

text \<open>
  \<open>io.Copy(dst, src)\<close>: read until \<open>io.EOF\<close> or an error, writing every non-empty read to
  \<open>dst\<close> before looking at the read's error; a write error ends the copy at once.
\<close>

fun io_Copy :: "writer \<Rightarrow> reader \<Rightarrow> pipe \<Rightarrow> error option \<times> writer \<times> pipe" where
  "io_Copy dst [] p = (None, dst, p)"
| "io_Copy dst ((b, er) # src) p =
     (case (if b \<noteq> [] then Write dst b p else (None, dst, p)) of
        (Some ew, dst', p') \<Rightarrow> (Some ew, dst', p')
      | (None, dst', p') \<Rightarrow>
          (case er of
             More \<Rightarrow> io_Copy dst' src p'
           | EOF \<Rightarrow> (None, dst', p')
           | Failed e \<Rightarrow> (Some e, dst', p')))"

subsection \<open>Configuration and client construction\<close>

text \<open>
  The parts of the Go library the package calls and that are not modelled here are
  parameters: \<open>gzip.NewWriter\<close>, \<open>gzip.NewReader\<close> and the quoting of non-ASCII runes.
\<close>

record golib =
  gzip_NewWriter :: "writer \<Rightarrow> writer"
  gzip_NewReader :: "reader \<Rightarrow> error + readcloser"
  quoteRune :: "string \<Rightarrow> string \<times> nat"

definition FormatGzip :: string where "FormatGzip = ''gzip''"
definition FormatNoop :: string where "FormatNoop = ''noop''"
definition DefaultFormat :: string where "DefaultFormat = FormatGzip"

definition AvailableFormats :: "string list" where
  "AvailableFormats = [FormatGzip, FormatNoop]"

record Config =
  Format :: string
  Compressor :: "(writer \<Rightarrow> writer) option"
  Decompressor :: "(reader \<Rightarrow> error + readcloser) option"

record client =
  compressor :: "(writer \<Rightarrow> writer) option"
  decompressor :: "(reader \<Rightarrow> error + readcloser) option"

definition validate :: "Config \<Rightarrow> error option" where
  "validate c =
     (if Decompressor c = None then Some (ErrorString ''decompressor must be configured'')
      else if Compressor c = None then Some (ErrorString ''compressor must be configured'')
      else None)"

definition gzipConfig :: "golib \<Rightarrow> Config" where
  "gzipConfig lib =
     \<lparr>Format = [],
      Compressor = Some (\<lambda>a. gzip_NewWriter lib a),
      Decompressor = Some (\<lambda>a.
        case gzip_NewReader lib a of
          Inl err \<Rightarrow> Inl (Wrapped ''creating decompressor: '' err)
        | Inr rc \<Rightarrow> Inr rc)\<rparr>"

definition noopConfig :: Config where
  "noopConfig =
     \<lparr>Format = [],
      Compressor = Some (\<lambda>a. a),
      Decompressor = Some (\<lambda>a. Inr (io_NopCloser a))\<rparr>"

text \<open>The \<open>switch\<close> on the format, entered only when neither override is set.\<close>

definition selectFormat :: "golib \<Rightarrow> Config \<Rightarrow> error + Config" where
  "selectFormat lib config =
     (if Decompressor config = None \<and> Compressor config = None then
        (if Format config = FormatGzip \<or> Format config = [] then Inr (gzipConfig lib)
         else if Format config = FormatNoop then Inr noopConfig
         else Inl (ErrorString (''unknown compression format ''
                                  @ strconv_Quote (quoteRune lib) (Format config))))
      else Inr config)"

definition NewClient :: "golib \<Rightarrow> Config list \<Rightarrow> error + client" where
  "NewClient lib configs =
     (if length configs > 1 then Inl (ErrorString ''only one config can be passed'')
      else
        (case selectFormat lib (case configs of [] \<Rightarrow> gzipConfig lib | c # _ \<Rightarrow> c) of
           Inl err \<Rightarrow> Inl err
         | Inr config \<Rightarrow>
             (case validate config of
                Some err \<Rightarrow> Inl (Wrapped ''validating configuration: '' err)
              | None \<Rightarrow>
                  Inr \<lparr>compressor = Compressor config, decompressor = Decompressor config\<rparr>)))"

subsection \<open>Compress and Decompress\<close>

text \<open>
  A call returns at once. \<open>started\<close> is the state of the call's pipe and error channel
  when it returns, with the context the caller gave. \<open>task\<close> is the function literal
  whose result the goroutine sends on the channel (\<open>errCh <- func() error {...}()\<close>), or
  \<open>None\<close> when no goroutine is started. The function literal has the pipe and no access
  to the channel.
\<close>

record world =
  pipe :: pipe
  errCh :: "error option list"
  call_ctx :: "nat option"

record operation =
  started :: world
  task :: "(pipe \<Rightarrow> error option \<times> pipe) option"

text \<open>A send on the channel of capacity one made by the call, which nothing else sends on.\<close>

definition chan_send :: "error option \<Rightarrow> error option list \<Rightarrow> error option list" where
  "chan_send v ch = ch @ [v]"


definition compress_task :: "writer \<Rightarrow> reader \<Rightarrow> pipe \<Rightarrow> error option \<times> pipe" where
  "compress_task cw input p =
     (case io_Copy cw input p of
        (Some err, _, p1) \<Rightarrow> (Some (Wrapped ''compressing data: '' err), p1)
      | (None, cw', p1) \<Rightarrow>
          (case Close cw' p1 of
             (Some err, p2) \<Rightarrow> (Some (Wrapped ''closing compressor: '' err), p2)
           | (None, p2) \<Rightarrow> (None, snd (Close ctxWriteCloser p2))))"

definition Compress :: "client \<Rightarrow> nat option \<Rightarrow> reader \<Rightarrow> operation go" where
  "Compress c ctx input =
     (case compressor c of
        None \<Rightarrow> Panic
      | Some newCompressor \<Rightarrow>
          Returns \<lparr>started = \<lparr>pipe = io_Pipe ctx, errCh = [], call_ctx = ctx\<rparr>,
                   task = Some (compress_task (newCompressor ctxWriteCloser) input)\<rparr>)"

text \<open>
  In \<open>Decompress\<close> the deferred close of the pipe is registered after the copy, so it runs
  on both returns that follow it and not on the return of a failed copy.
\<close>

definition decompress_task :: "readcloser \<Rightarrow> pipe \<Rightarrow> error option \<times> pipe" where
  "decompress_task rc p =
     (case io_Copy ctxWriteCloser (reads rc) p of
        (Some err, _, p1) \<Rightarrow> (Some (Wrapped ''decompressing data: '' err), p1)
      | (None, _, p1) \<Rightarrow>
          (case close_result rc of
             Some err \<Rightarrow> (Some (Wrapped ''closing decompressor: '' err), snd (Close ctxWriteCloser p1))
           | None \<Rightarrow> (None, snd (Close ctxWriteCloser p1))))"

definition Decompress :: "client \<Rightarrow> nat option \<Rightarrow> reader \<Rightarrow> operation go" where
  "Decompress c ctx input =
     (case decompressor c of
        None \<Rightarrow> Panic
      | Some newDecompressor \<Rightarrow>
          (case newDecompressor input of
             Inl err \<Rightarrow>
               Returns \<lparr>started =
                          \<lparr>pipe = snd (Close ctxWriteCloser (io_Pipe ctx)),
                           errCh = chan_send (Some (Wrapped ''creating decompressor: '' err)) [],
                           call_ctx = ctx\<rparr>,
                        task = None\<rparr>
           | Inr rc \<Rightarrow>
               Returns \<lparr>started = \<lparr>pipe = io_Pipe ctx, errCh = [], call_ctx = ctx\<rparr>,
                        task = Some (decompress_task rc)\<rparr>))"

text \<open>
  The goroutine, run to its end: the function literal runs on the pipe, then its result
  is sent. \<open>before_send\<close> is the state in which the send is made.
\<close>

definition before_send :: "operation \<Rightarrow> world" where
  "before_send op =
     (case task op of
        None \<Rightarrow> started op
      | Some f \<Rightarrow> (started op)\<lparr>pipe := snd (f (pipe (started op)))\<rparr>)"

definition finished :: "operation \<Rightarrow> world" where
  "finished op =
     (case task op of
        None \<Rightarrow> started op
      | Some f \<Rightarrow>
          (before_send op)\<lparr>errCh := chan_send (fst (f (pipe (started op)))) (errCh (before_send op))\<rparr>)"


text \<open>
  The caller's side: reading the returned stream to its end (\<open>io.ReadAll\<close>, \<open>io.Copy\<close>)
  once the goroutine, if any, is over. The read end is wrapped with the context too, so
  a read returns the context's error when the context is cancelled. The result is the set
  of the outcomes the read can have: the bytes (after end-of-stream), an error, or \<open>None\<close>
  when the read never returns. With the write end left open no write will come any more,
  so unless the context is cancelled the reader waits for ever.
\<close>

definition drain_output :: "world \<Rightarrow> (error + bytes) option set" where
  "drain_output w =
     (if call_ctx w = None then
        (if wclosed (pipe w) then {Some (Inr (pdata (pipe w)))} else {None})
      else
        (if wclosed (pipe w) then {Some (Inr (pdata (pipe w))), Some (Inl context_Canceled)}
         else {Some (Inl context_Canceled)}))"

subsection \<open>What a reader delivers\<close>

text \<open>
  \<open>io.ReadAll\<close> on a reader: the bytes up to \<open>io.EOF\<close>, or the first error. It says which
  byte sequence an input stream stands for.
\<close>

fun io_ReadAll :: "reader \<Rightarrow> error + bytes" where
  "io_ReadAll [] = Inr []"
| "io_ReadAll ((b, More) # r) = (case io_ReadAll r of Inl e \<Rightarrow> Inl e | Inr d \<Rightarrow> Inr (b @ d))"
| "io_ReadAll ((b, EOF) # r) = Inr b"
| "io_ReadAll ((b, Failed e) # r) = Inl e"

subsection \<open>The contract of the gzip library\<close>

text \<open>
  The package delegates the default codec to \<open>compress/gzip\<close>. What the package needs of
  it is the library's own round trip: with a context that is never cancelled, writing a
  stream to a \<open>gzip.Writer\<close> over the pipe's write end and closing the writer succeeds,
  and a \<open>gzip.Reader\<close> over any stream of the bytes the writer produced delivers the
  original bytes and closes without error.
\<close>

definition gzip_round_trips :: "golib \<Rightarrow> bool" where
  "gzip_round_trips lib =
     (\<forall>input D. io_ReadAll input = Inr D \<longrightarrow>
        (\<exists>cw p1 p2.
           io_Copy (gzip_NewWriter lib ctxWriteCloser) input (io_Pipe None) = (None, cw, p1) \<and>
           Close cw p1 = (None, p2) \<and>
           (\<forall>r. io_ReadAll r = Inr (pdata p2) \<longrightarrow>
              (\<exists>rc. gzip_NewReader lib r = Inr rc \<and> io_ReadAll (reads rc) = Inr D \<and>
                    close_result rc = None))))"

subsection \<open>A library instance for the examples\<close>

text \<open>
  The examples need a concrete value for the library parameters. \<open>example_lib\<close> is a
  small codec with the shape of gzip's interface and none of its compression: its writer
  puts a two-byte header before the data (on the first write, or on \<open>Close\<close> if nothing
  was written) and leaves the underlying writer open on \<open>Close\<close>; its reader checks the
  header when it is constructed and delivers what follows. Its \<open>quoteRune\<close> prints a
  question mark for every byte from \<open>0x80\<close> on.
\<close>

definition magic :: bytes where
  "magic = [CHR 0x1F, CHR 0x8B]"

primcorec framing_writer :: "bool \<Rightarrow> writer \<Rightarrow> writer" where
  "Write (framing_writer headed a) =
     (\<lambda>b p. case Write a (if headed then b else magic @ b) p of
               (e, a', p') \<Rightarrow> (e, framing_writer True a', p'))"
| "Close (framing_writer headed a) =
     (\<lambda>p. if headed then (None, p)
          else (case Write a magic p of (e, a', p') \<Rightarrow> (e, p')))"

definition framing_reader :: "reader \<Rightarrow> error + readcloser" where
  "framing_reader r =
     (case io_ReadAll r of
        Inl e \<Rightarrow> Inl e
      | Inr d \<Rightarrow>
          if take 2 d = magic then Inr \<lparr>reads = [(drop 2 d, EOF)], close_result = None\<rparr>
          else Inl (ErrorString ''gzip: invalid header''))"

definition example_lib :: golib where
  "example_lib =
     \<lparr>gzip_NewWriter = framing_writer False,
      gzip_NewReader = framing_reader,
      quoteRune = (\<lambda>s. (''?'', 0))\<rparr>"

text \<open>
  A compressor whose \<open>Close\<close> closes the underlying writer and then fails, as the one of
  the package's test \<open>closing_compressor_fails\<close>.
\<close>

primcorec closing_fails :: "error \<Rightarrow> writer \<Rightarrow> writer" where
  "Write (closing_fails err a) =
     (\<lambda>b p. case Write a b p of (e, a', p') \<Rightarrow> (e, closing_fails err a', p'))"
| "Close (closing_fails err a) = (\<lambda>p. (Some err, snd (Close a p)))"

section \<open>Properties\<close>

subsection \<open>Client construction\<close>

lemma NewClient_noop:
  "NewClient lib [\<lparr>Format = FormatNoop, Compressor = None, Decompressor = None\<rparr>] =
     Inr \<lparr>compressor = Compressor noopConfig, decompressor = Decompressor noopConfig\<rparr>"
  by (simp add: NewClient_def selectFormat_def validate_def noopConfig_def FormatNoop_def FormatGzip_def)

lemma NewClient_gzip:
  "f = FormatGzip \<or> f = [] \<Longrightarrow>
   NewClient lib [\<lparr>Format = f, Compressor = None, Decompressor = None\<rparr>] =
     Inr \<lparr>compressor = Compressor (gzipConfig lib), decompressor = Decompressor (gzipConfig lib)\<rparr>"
  by (auto simp add: NewClient_def selectFormat_def validate_def gzipConfig_def)

lemma NewClient_default:
  "NewClient lib [] =
     Inr \<lparr>compressor = Compressor (gzipConfig lib), decompressor = Decompressor (gzipConfig lib)\<rparr>"
  by (simp add: NewClient_def selectFormat_def validate_def gzipConfig_def)

lemma NewClient_never_nil:
  "NewClient lib configs = Inr c \<Longrightarrow> \<exists>nc nd. compressor c = Some nc \<and> decompressor c = Some nd"
  by (auto simp: NewClient_def validate_def split: if_splits sum.splits option.splits)

subsection \<open>Copying into the pipe\<close>

lemma pipe_Write_open:
  "\<not> wclosed p \<Longrightarrow> cancel_after p = None \<Longrightarrow> \<not> unread p \<Longrightarrow>
   pipe_Write b p = (None, p\<lparr>pdata := pdata p @ b\<rparr>)"
  by (simp add: pipe_Write_def)

text \<open>
  With a context that is never cancelled, copying a stream that ends in \<open>io.EOF\<close> into the
  open pipe appends exactly the stream's bytes.
\<close>

lemma io_Copy_ctx_ok:
  "io_ReadAll input = Inr D \<Longrightarrow> \<not> wclosed p \<Longrightarrow> cancel_after p = None \<Longrightarrow> \<not> unread p \<Longrightarrow>
   io_Copy ctxWriteCloser input p = (None, ctxWriteCloser, p\<lparr>pdata := pdata p @ D\<rparr>)"
proof (induction input arbitrary: D p)
  case Nil
  then show ?case by simp
next
  case (Cons a input)
  obtain b er where a: "a = (b, er)" by (cases a)
  show ?case
  proof (cases er)
    case More
    with Cons.prems a obtain D' where D': "io_ReadAll input = Inr D'" "D = b @ D'"
      by (auto split: sum.splits)
    have "io_Copy ctxWriteCloser input (p\<lparr>pdata := pdata p @ b\<rparr>)
          = (None, ctxWriteCloser, p\<lparr>pdata := pdata p @ b @ D'\<rparr>)"
      using Cons.IH [OF D'(1), of "p\<lparr>pdata := pdata p @ b\<rparr>"] Cons.prems by simp
    moreover have "io_Copy ctxWriteCloser input p = (None, ctxWriteCloser, p\<lparr>pdata := pdata p @ D'\<rparr>)"
      using Cons.IH [OF D'(1), of p] Cons.prems by simp
    ultimately show ?thesis
      using a More D' Cons.prems by (simp add: pipe_Write_open)
  next
    case EOF
    then show ?thesis using a Cons.prems by (auto simp: pipe_Write_open)
  next
    case (Failed e)
    then show ?thesis using a Cons.prems by simp
  qed
qed


lemma Compress_finished:
  "compressor c = Some nc \<Longrightarrow>
   \<exists>op. Compress c ctx input = Returns op \<and> started op = \<lparr>pipe = io_Pipe ctx, errCh = [], call_ctx = ctx\<rparr> \<and>
        task op = Some (compress_task (nc ctxWriteCloser) input) \<and>
        finished op = \<lparr>pipe = snd (compress_task (nc ctxWriteCloser) input (io_Pipe ctx)),
                        errCh = [fst (compress_task (nc ctxWriteCloser) input (io_Pipe ctx))],
                        call_ctx = ctx\<rparr>"
  by (simp add: Compress_def finished_def before_send_def chan_send_def)

lemma Decompress_finished:
  "decompressor c = Some nd \<Longrightarrow> nd input = Inr rc \<Longrightarrow>
   \<exists>op. Decompress c ctx input = Returns op \<and> started op = \<lparr>pipe = io_Pipe ctx, errCh = [], call_ctx = ctx\<rparr> \<and>
        task op = Some (decompress_task rc) \<and>
        finished op = \<lparr>pipe = snd (decompress_task rc (io_Pipe ctx)),
                        errCh = [fst (decompress_task rc (io_Pipe ctx))],
                        call_ctx = ctx\<rparr>"
  by (simp add: Decompress_def finished_def before_send_def chan_send_def)

lemma compress_task_noop_ok:
  "io_ReadAll input = Inr D \<Longrightarrow>
   compress_task ctxWriteCloser input (io_Pipe None) =
     (None, \<lparr>pdata = D, wclosed = True, cancel_after = None, unread = False, blocked = False\<rparr>)"
  using io_Copy_ctx_ok [of input D "io_Pipe None"]
  by (simp add: compress_task_def io_Pipe_def pipe_Close_def)

lemma decompress_task_ok:
  "io_ReadAll (reads rc) = Inr D \<Longrightarrow> close_result rc = None \<Longrightarrow>
   decompress_task rc (io_Pipe None) =
     (None, \<lparr>pdata = D, wclosed = True, cancel_after = None, unread = False, blocked = False\<rparr>)"
  using io_Copy_ctx_ok [of "reads rc" D "io_Pipe None"]
  by (simp add: decompress_task_def io_Pipe_def pipe_Close_def)

subsection \<open>The example library keeps the contract\<close>

lemma io_Copy_framing_ok:
  "io_ReadAll input = Inr D \<Longrightarrow> \<not> wclosed p \<Longrightarrow> cancel_after p = None \<Longrightarrow> \<not> unread p \<Longrightarrow>
   io_Copy (framing_writer headed ctxWriteCloser) input p =
     (None, framing_writer (headed \<or> D \<noteq> []) ctxWriteCloser,
      p\<lparr>pdata := pdata p @ (if \<not> headed \<and> D \<noteq> [] then magic else []) @ D\<rparr>)"
proof (induction input arbitrary: D p headed)
  case Nil
  then show ?case by simp
next
  case (Cons a input)
  obtain b er where a: "a = (b, er)" by (cases a)
  show ?case
  proof (cases er)
    case More
    with Cons.prems a obtain D' where D': "io_ReadAll input = Inr D'" "D = b @ D'"
      by (auto split: sum.splits)
    show ?thesis
    proof (cases "b = []")
      case True
      then show ?thesis
        using a More D' Cons.prems Cons.IH [OF D'(1), of p headed] by simp
    next
      case False
      let ?p = "p\<lparr>pdata := pdata p @ (if headed then b else magic @ b)\<rparr>"
      have "io_Copy (framing_writer True ctxWriteCloser) input ?p =
            (None, framing_writer True ctxWriteCloser, ?p\<lparr>pdata := pdata ?p @ D'\<rparr>)"
        using Cons.IH [OF D'(1), of ?p True] Cons.prems by simp
      then show ?thesis
        using a More D' Cons.prems False by (simp add: pipe_Write_open)
    qed
  next
    case EOF
    then show ?thesis using a Cons.prems by (auto simp: pipe_Write_open)
  next
    case (Failed e)
    then show ?thesis using a Cons.prems by simp
  qed
qed

lemma example_lib_round_trips: "gzip_round_trips example_lib"
  unfolding gzip_round_trips_def
proof (intro allI impI)
  fix input D
  assume rd: "io_ReadAll input = Inr D"
  let ?p0 = "io_Pipe None"
  let ?p1 = "?p0\<lparr>pdata := pdata ?p0 @ (if D \<noteq> [] then magic else []) @ D\<rparr>"
  let ?cw = "framing_writer (D \<noteq> []) ctxWriteCloser"
  have copy: "io_Copy (gzip_NewWriter example_lib ctxWriteCloser) input ?p0 = (None, ?cw, ?p1)"
    using io_Copy_framing_ok [OF rd, of ?p0 False] by (simp add: example_lib_def io_Pipe_def)
  have close: "Close ?cw ?p1 = (None, ?p0\<lparr>pdata := magic @ D\<rparr>)"
    by (simp add: io_Pipe_def pipe_Write_def)
  have rt: "\<forall>r. io_ReadAll r = Inr (pdata (?p0\<lparr>pdata := magic @ D\<rparr>)) \<longrightarrow>
      (\<exists>rc. gzip_NewReader example_lib r = Inr rc \<and> io_ReadAll (reads rc) = Inr D \<and>
            close_result rc = None)"
    by (simp add: example_lib_def framing_reader_def magic_def)
  show "\<exists>cw p1 p2.
           io_Copy (gzip_NewWriter example_lib ctxWriteCloser) input (io_Pipe None) = (None, cw, p1) \<and>
           Close cw p1 = (None, p2) \<and>
           (\<forall>r. io_ReadAll r = Inr (pdata p2) \<longrightarrow>
              (\<exists>rc. gzip_NewReader example_lib r = Inr rc \<and> io_ReadAll (reads rc) = Inr D \<and>
                    close_result rc = None))"
    using copy close rt by blast
qed

subsection \<open>Substrings and quoting\<close>

lemma HasPrefix_iff: "HasPrefix s p \<longleftrightarrow> (\<exists>b. s = p @ b)"
  by (induction s p rule: HasPrefix.induct) auto

lemma Contains_iff: "Contains s substr \<longleftrightarrow> (\<exists>a b. s = a @ substr @ b)"
proof (induction s)
  case Nil
  then show ?case by simp
next
  case (Cons c s)
  show ?case
  proof
    assume "Contains (c # s) substr"
    then consider "HasPrefix (c # s) substr" | "Contains s substr" by auto
    then show "\<exists>a b. c # s = a @ substr @ b"
    proof cases
      case 1
      then obtain b where "c # s = substr @ b" by (auto simp: HasPrefix_iff)
      then have "c # s = [] @ substr @ b" by simp
      then show ?thesis by blast
    next
      case 2
      then obtain a b where "s = a @ substr @ b" using Cons.IH by blast
      then have "c # s = (c # a) @ substr @ b" by simp
      then show ?thesis by blast
    qed
  next
    assume "\<exists>a b. c # s = a @ substr @ b"
    then obtain a b where ab: "c # s = a @ substr @ b" by blast
    show "Contains (c # s) substr"
    proof (cases a)
      case Nil
      with ab have "HasPrefix (c # s) substr" by (auto simp: HasPrefix_iff)
      then show ?thesis by simp
    next
      case (Cons x a')
      with ab have "s = a' @ substr @ b" by simp
      then have "Contains s substr" using Cons.IH by blast
      then show ?thesis by simp
    qed
  qed
qed

text \<open>Quoting leaves printable ASCII other than the double quote and the backslash alone.\<close>

lemma appendQuoted_plain:
  "\<forall>c \<in> set f. IsPrint c \<and> c \<noteq> CHR 0x22 \<and> c \<noteq> CHR 0x5C \<Longrightarrow> appendQuoted q f = f"
  by (induction f) (auto simp: appendEscapedRune_def IsPrint_def)

subsection \<open>Round trips of the two built-in codecs\<close>

lemma round_trip_noop:
  assumes rd: "io_ReadAll input = Inr D"
  shows "\<exists>op1. Compress \<lparr>compressor = Compressor noopConfig, decompressor = Decompressor noopConfig\<rparr>
                 None input = Returns op1 \<and>
           errCh (finished op1) = [None] \<and> drain_output (finished op1) = {Some (Inr D)} \<and>
           (\<forall>r. io_ReadAll r = Inr D \<longrightarrow>
              (\<exists>op2. Decompress \<lparr>compressor = Compressor noopConfig,
                                 decompressor = Decompressor noopConfig\<rparr> None r = Returns op2 \<and>
                     errCh (finished op2) = [None] \<and> drain_output (finished op2) = {Some (Inr D)}))"
proof -
  let ?c = "\<lparr>compressor = Compressor noopConfig, decompressor = Decompressor noopConfig\<rparr>"
  have cc: "compressor ?c = Some (\<lambda>a. a)" and cd: "decompressor ?c = Some (\<lambda>a. Inr (io_NopCloser a))"
    by (simp_all add: noopConfig_def)
  from Compress_finished [OF cc, of None input] compress_task_noop_ok [OF rd]
  obtain op1 where op1: "Compress ?c None input = Returns op1" "errCh (finished op1) = [None]"
      "drain_output (finished op1) = {Some (Inr D)}"
    by (auto simp: drain_output_def)
  have "\<exists>op2. Decompress ?c None r = Returns op2 \<and>
              errCh (finished op2) = [None] \<and> drain_output (finished op2) = {Some (Inr D)}"
    if r: "io_ReadAll r = Inr D" for r
  proof -
    have "io_ReadAll (reads (io_NopCloser r)) = Inr D" "close_result (io_NopCloser r) = None"
      using r by (simp_all add: io_NopCloser_def)
    from Decompress_finished [OF cd, of r "io_NopCloser r" None] decompress_task_ok [OF this]
    show ?thesis by (auto simp: drain_output_def)
  qed
  with op1 show ?thesis by blast
qed

lemma round_trip_gzip:
  assumes lib: "gzip_round_trips lib" and rd: "io_ReadAll input = Inr D"
  shows "\<exists>op1 E. Compress \<lparr>compressor = Compressor (gzipConfig lib),
                            decompressor = Decompressor (gzipConfig lib)\<rparr> None input = Returns op1 \<and>
           errCh (finished op1) = [None] \<and> drain_output (finished op1) = {Some (Inr E)} \<and>
           (\<forall>r. io_ReadAll r = Inr E \<longrightarrow>
              (\<exists>op2. Decompress \<lparr>compressor = Compressor (gzipConfig lib),
                                 decompressor = Decompressor (gzipConfig lib)\<rparr> None r = Returns op2 \<and>
                     errCh (finished op2) = [None] \<and> drain_output (finished op2) = {Some (Inr D)}))"
proof -
  let ?c = "\<lparr>compressor = Compressor (gzipConfig lib), decompressor = Decompressor (gzipConfig lib)\<rparr>"
  let ?nd = "\<lambda>a. case gzip_NewReader lib a of
                    Inl err \<Rightarrow> Inl (Wrapped ''creating decompressor: '' err)
                  | Inr rc \<Rightarrow> Inr rc"
  have cc: "compressor ?c = Some (\<lambda>a. gzip_NewWriter lib a)" and cd: "decompressor ?c = Some ?nd"
    by (simp_all add: gzipConfig_def)
  from lib rd obtain cw p1 p2 where
    copy: "io_Copy (gzip_NewWriter lib ctxWriteCloser) input (io_Pipe None) = (None, cw, p1)" and
    close: "Close cw p1 = (None, p2)" and
    rt: "\<And>r. io_ReadAll r = Inr (pdata p2) \<Longrightarrow>
          \<exists>rc. gzip_NewReader lib r = Inr rc \<and> io_ReadAll (reads rc) = Inr D \<and> close_result rc = None"
    unfolding gzip_round_trips_def by blast
  have t: "compress_task (gzip_NewWriter lib ctxWriteCloser) input (io_Pipe None) =
           (None, p2\<lparr>wclosed := True\<rparr>)"
    using copy close by (simp add: compress_task_def pipe_Close_def)
  from Compress_finished [OF cc, of None input] t
  obtain op1 where op1: "Compress ?c None input = Returns op1" "errCh (finished op1) = [None]"
      "drain_output (finished op1) = {Some (Inr (pdata p2))}"
    by (auto simp: drain_output_def)
  have "\<exists>op2. Decompress ?c None r = Returns op2 \<and>
              errCh (finished op2) = [None] \<and> drain_output (finished op2) = {Some (Inr D)}"
    if r: "io_ReadAll r = Inr (pdata p2)" for r
  proof -
    from rt [OF r] obtain rc where rc: "gzip_NewReader lib r = Inr rc" "io_ReadAll (reads rc) = Inr D"
        "close_result rc = None"
      by blast
    then have "?nd r = Inr rc" by simp
    from Decompress_finished [OF cd this, of None] decompress_task_ok [OF rc(2,3)]
    show ?thesis by (auto simp: drain_output_def)
  qed
  with op1 show ?thesis by blast
qed

section \<open>The claims\<close>

text \<open>
  C1. The claim: on every way the goroutine of \<open>Compress\<close> or \<open>Decompress\<close> ends, the
  pipe's write end is closed before the result is sent on the channel, so that a caller
  that reads the output to its end and then receives from the channel never waits for
  ever. The code does not keep this when the copy fails. With the \<open>noop\<close> client, a
  context that is never cancelled and an input whose first \<open>Read\<close> fails, both operations
  send the wrapped read error with the write end still open, it stays open, and every
  outcome of reading the output to its end is to wait for ever.
\<close>

theorem failed_copy_leaves_pipe_open:
  "NewClient example_lib [\<lparr>Format = FormatNoop, Compressor = None, Decompressor = None\<rparr>] =
     Inr \<lparr>compressor = Compressor noopConfig, decompressor = Decompressor noopConfig\<rparr> \<and>
   (\<exists>op. Compress \<lparr>compressor = Compressor noopConfig, decompressor = Decompressor noopConfig\<rparr>
            None [([], Failed (ErrorString ''reading error''))] = Returns op \<and>
         errCh (finished op) =
           [Some (Wrapped ''compressing data: '' (ErrorString ''reading error''))] \<and>
         \<not> wclosed (pipe (before_send op)) \<and> \<not> wclosed (pipe (finished op)) \<and>
         drain_output (finished op) = {None}) \<and>
   (\<exists>op. Decompress \<lparr>compressor = Compressor noopConfig, decompressor = Decompressor noopConfig\<rparr>
            None [([], Failed (ErrorString ''reading error''))] = Returns op \<and>
         errCh (finished op) =
           [Some (Wrapped ''decompressing data: '' (ErrorString ''reading error''))] \<and>
         \<not> wclosed (pipe (before_send op)) \<and> \<not> wclosed (pipe (finished op)) \<and>
         drain_output (finished op) = {None})"
  by (simp add: NewClient_noop Compress_def Decompress_def noopConfig_def io_NopCloser_def
      compress_task_def decompress_task_def finished_def before_send_def chan_send_def
      io_Pipe_def drain_output_def)

text \<open>
  C2. When the decompressor constructor of a client made by \<open>NewClient\<close> fails on the
  input, \<open>Decompress\<close> returns (it does not panic) with the constructor's error, wrapped,
  already on the channel, with the pipe's write end closed and nothing written, and with
  no goroutine started. Reading the output never waits: it gives end-of-stream at once
  (or the context's error, when the context is one that gets cancelled).
\<close>

theorem Decompress_constructor_failure:
  assumes c: "NewClient lib configs = Inr c"
      and fails: "\<forall>nd. decompressor c = Some nd \<longrightarrow> nd input = Inl err"
  shows "\<exists>op. Decompress c ctx input = Returns op \<and> task op = None \<and>
              finished op = started op \<and>
              errCh (started op) = [Some (Wrapped ''creating decompressor: '' err)] \<and>
              wclosed (pipe (started op)) \<and> pdata (pipe (started op)) = [] \<and>
              None \<notin> drain_output (started op) \<and>
              drain_output (started op) =
                (if ctx = None then {Some (Inr [])}
                 else {Some (Inr []), Some (Inl context_Canceled)})"
proof -
  from NewClient_never_nil [OF c] obtain nd where nd: "decompressor c = Some nd" by blast
  with fails have "nd input = Inl err" by blast
  with nd show ?thesis
    by (simp add: Decompress_def finished_def chan_send_def pipe_Close_def io_Pipe_def drain_output_def)
qed

theorem Decompress_constructor_failure_witness:
  "\<exists>c op. NewClient example_lib [] = Inr c \<and>
     Decompress c None [(''foo'', EOF)] = Returns op \<and> task op = None \<and>
     errCh (started op) =
       [Some (Wrapped ''creating decompressor: ''
               (Wrapped ''creating decompressor: '' (ErrorString ''gzip: invalid header'')))] \<and>
     wclosed (pipe (started op)) \<and> drain_output (started op) = {Some (Inr [])}"
  using Decompress_constructor_failure
    [OF NewClient_default, of example_lib "[(''foo'', EOF)]"
       "Wrapped ''creating decompressor: '' (ErrorString ''gzip: invalid header'')" None]
  by (auto simp: NewClient_default gzipConfig_def example_lib_def framing_reader_def magic_def)

text \<open>
  C3. The error that reaches the channel. In \<open>Compress\<close>: when copying the input into the
  compressor fails, it is the copy's error (wrapped with \<open>compressing data: \<close>), whatever
  closing the compressor would return; when the copy succeeds and closing the compressor
  fails, it is the close error (wrapped with \<open>closing compressor: \<close>); when both succeed,
  it is \<open>nil\<close>. In \<open>Decompress\<close>, likewise, with the copy from the decompressor into the
  pipe and the decompressor's \<open>Close\<close>.
\<close>

theorem failure_composition:
  "(compressor c = Some nc \<and> io_Copy (nc ctxWriteCloser) input (io_Pipe ctx) = (copy_err, cw, p1) \<and>
    Close cw p1 = (close_err, p2) \<longrightarrow>
      (\<exists>op. Compress c ctx input = Returns op \<and>
            errCh (finished op) =
              [case copy_err of
                 Some e \<Rightarrow> Some (Wrapped ''compressing data: '' e)
               | None \<Rightarrow>
                   (case close_err of
                      Some e \<Rightarrow> Some (Wrapped ''closing compressor: '' e)
                    | None \<Rightarrow> None)])) \<and>
   (decompressor c = Some nd \<and> nd input = Inr rc \<and>
    io_Copy ctxWriteCloser (reads rc) (io_Pipe ctx) = (copy_err', w', p1') \<longrightarrow>
      (\<exists>op. Decompress c ctx input = Returns op \<and>
            errCh (finished op) =
              [case copy_err' of
                 Some e \<Rightarrow> Some (Wrapped ''decompressing data: '' e)
               | None \<Rightarrow>
                   (case close_result rc of
                      Some e \<Rightarrow> Some (Wrapped ''closing decompressor: '' e)
                    | None \<Rightarrow> None)]))"
proof (intro conjI impI)
  assume a: "compressor c = Some nc \<and>
    io_Copy (nc ctxWriteCloser) input (io_Pipe ctx) = (copy_err, cw, p1) \<and>
    Close cw p1 = (close_err, p2)"
  then have "fst (compress_task (nc ctxWriteCloser) input (io_Pipe ctx)) =
        (case copy_err of
           Some e \<Rightarrow> Some (Wrapped ''compressing data: '' e)
         | None \<Rightarrow>
             (case close_err of
                Some e \<Rightarrow> Some (Wrapped ''closing compressor: '' e)
              | None \<Rightarrow> None))"
    by (simp add: compress_task_def split: option.splits)
  with Compress_finished [of c nc ctx input] a
  show "\<exists>op. Compress c ctx input = Returns op \<and>
            errCh (finished op) =
              [case copy_err of
                 Some e \<Rightarrow> Some (Wrapped ''compressing data: '' e)
               | None \<Rightarrow>
                   (case close_err of
                      Some e \<Rightarrow> Some (Wrapped ''closing compressor: '' e)
                    | None \<Rightarrow> None)]"
    by auto
next
  assume a: "decompressor c = Some nd \<and> nd input = Inr rc \<and>
    io_Copy ctxWriteCloser (reads rc) (io_Pipe ctx) = (copy_err', w', p1')"
  then have "fst (decompress_task rc (io_Pipe ctx)) =
        (case copy_err' of
           Some e \<Rightarrow> Some (Wrapped ''decompressing data: '' e)
         | None \<Rightarrow>
             (case close_result rc of
                Some e \<Rightarrow> Some (Wrapped ''closing decompressor: '' e)
              | None \<Rightarrow> None))"
    by (simp add: decompress_task_def split: option.splits)
  with Decompress_finished [of c nd input rc ctx] a
  show "\<exists>op. Decompress c ctx input = Returns op \<and>
            errCh (finished op) =
              [case copy_err' of
                 Some e \<Rightarrow> Some (Wrapped ''decompressing data: '' e)
               | None \<Rightarrow>
                   (case close_result rc of
                      Some e \<Rightarrow> Some (Wrapped ''closing decompressor: '' e)
                    | None \<Rightarrow> None)]"
    by auto
qed

theorem failure_composition_witness:
  "(\<exists>op. Compress \<lparr>compressor = Some (closing_fails (ErrorString ''test error'')),
                    decompressor = Decompressor noopConfig\<rparr> None
            [([], Failed (ErrorString ''reading error''))] = Returns op \<and>
         errCh (finished op) =
           [Some (Wrapped ''compressing data: '' (ErrorString ''reading error''))]) \<and>
   (\<exists>op. Compress \<lparr>compressor = Some (closing_fails (ErrorString ''test error'')),
                    decompressor = Decompressor noopConfig\<rparr> None
            [(''foo'', EOF)] = Returns op \<and>
         errCh (finished op) =
           [Some (Wrapped ''closing compressor: '' (ErrorString ''test error''))]) \<and>
   (\<exists>op. Decompress \<lparr>compressor = Compressor noopConfig,
                      decompressor = Some (\<lambda>a. Inr \<lparr>reads = a,
                        close_result = Some (ErrorString ''test error'')\<rparr>)\<rparr> None
            [(''foo'', EOF)] = Returns op \<and>
         errCh (finished op) =
           [Some (Wrapped ''closing decompressor: '' (ErrorString ''test error''))])"
  using
    failure_composition
      [where c = "\<lparr>compressor = Some (closing_fails (ErrorString ''test error'')),
                    decompressor = Decompressor noopConfig\<rparr>"
         and nc = "closing_fails (ErrorString ''test error'')"
         and input = "[([], Failed (ErrorString ''reading error''))]" and ctx = None
         and copy_err = "Some (ErrorString ''reading error'')"
         and cw = "closing_fails (ErrorString ''test error'') ctxWriteCloser"
         and ?p1.0 = "io_Pipe None"
         and close_err = "Some (ErrorString ''test error'')"
         and ?p2.0 = "(io_Pipe None)\<lparr>wclosed := True\<rparr>"]
    failure_composition
      [where c = "\<lparr>compressor = Some (closing_fails (ErrorString ''test error'')),
                    decompressor = Decompressor noopConfig\<rparr>"
         and nc = "closing_fails (ErrorString ''test error'')"
         and input = "[(''foo'', EOF)]" and ctx = None and copy_err = None
         and cw = "closing_fails (ErrorString ''test error'') ctxWriteCloser"
         and ?p1.0 = "(io_Pipe None)\<lparr>pdata := ''foo''\<rparr>"
         and close_err = "Some (ErrorString ''test error'')"
         and ?p2.0 = "(io_Pipe None)\<lparr>pdata := ''foo'', wclosed := True\<rparr>"]
    failure_composition
      [where c = "\<lparr>compressor = Compressor noopConfig,
                    decompressor = Some (\<lambda>a. Inr \<lparr>reads = a,
                      close_result = Some (ErrorString ''test error'')\<rparr>)\<rparr>"
         and nd = "\<lambda>a. Inr \<lparr>reads = a, close_result = Some (ErrorString ''test error'')\<rparr>"
         and input = "[(''foo'', EOF)]"
         and rc = "\<lparr>reads = [(''foo'', EOF)], close_result = Some (ErrorString ''test error'')\<rparr>"
         and ctx = None and copy_err' = None and w' = ctxWriteCloser
         and p1' = "(io_Pipe None)\<lparr>pdata := ''foo''\<rparr>"]
  by (simp add: io_Pipe_def pipe_Write_def pipe_Close_def)

text \<open>
  C4. Round trip. For each built-in format (\<open>gzip\<close> or the empty string for the default
  codec, \<open>noop\<close> for the passthrough codec) and every input stream that delivers the bytes
  \<open>D\<close>: \<open>Compress\<close> succeeds and puts some bytes \<open>E\<close> on its output stream, and
  \<open>Decompress\<close> of any stream that delivers \<open>E\<close> succeeds and puts exactly \<open>D\<close> on its
  output stream. For the passthrough codec this holds as it stands. The default codec is
  \<open>compress/gzip\<close> of the Go library, which the package only calls: for it the statement
  holds for every library that keeps \<open>gzip_round_trips\<close>.
\<close>

theorem round_trip_builtin_codecs:
  assumes fmt: "f = FormatNoop \<or> (f = FormatGzip \<or> f = []) \<and> gzip_round_trips lib"
      and rd: "io_ReadAll input = Inr D"
  shows "\<exists>c op1 E.
           NewClient lib [\<lparr>Format = f, Compressor = None, Decompressor = None\<rparr>] = Inr c \<and>
           Compress c None input = Returns op1 \<and>
           errCh (finished op1) = [None] \<and> drain_output (finished op1) = {Some (Inr E)} \<and>
           (\<forall>r. io_ReadAll r = Inr E \<longrightarrow>
              (\<exists>op2. Decompress c None r = Returns op2 \<and>
                     errCh (finished op2) = [None] \<and> drain_output (finished op2) = {Some (Inr D)}))"
  using fmt
proof
  assume "f = FormatNoop"
  with round_trip_noop [OF rd] NewClient_noop [of lib] show ?thesis by blast
next
  assume g: "(f = FormatGzip \<or> f = []) \<and> gzip_round_trips lib"
  then have "NewClient lib [\<lparr>Format = f, Compressor = None, Decompressor = None\<rparr>] =
     Inr \<lparr>compressor = Compressor (gzipConfig lib), decompressor = Decompressor (gzipConfig lib)\<rparr>"
    using NewClient_gzip by blast
  with round_trip_gzip [OF _ rd, of lib] g show ?thesis by blast
qed

theorem round_trip_builtin_codecs_witness:
  "(\<exists>c op1 E op2.
      NewClient example_lib [\<lparr>Format = FormatGzip, Compressor = None, Decompressor = None\<rparr>] = Inr c \<and>
      Compress c None [(''fo'', More), (''o'', EOF)] = Returns op1 \<and>
      errCh (finished op1) = [None] \<and> drain_output (finished op1) = {Some (Inr E)} \<and>
      Decompress c None [(E, EOF)] = Returns op2 \<and>
      errCh (finished op2) = [None] \<and> drain_output (finished op2) = {Some (Inr ''foo'')}) \<and>
   (\<exists>c op1 E op2.
      NewClient example_lib [\<lparr>Format = FormatNoop, Compressor = None, Decompressor = None\<rparr>] = Inr c \<and>
      Compress c None [(''fo'', More), (''o'', EOF)] = Returns op1 \<and>
      errCh (finished op1) = [None] \<and> drain_output (finished op1) = {Some (Inr E)} \<and>
      Decompress c None [(E, EOF)] = Returns op2 \<and>
      errCh (finished op2) = [None] \<and> drain_output (finished op2) = {Some (Inr ''foo'')})"
proof -
  have rd: "io_ReadAll [(''fo'', More), (''o'', EOF)] = Inr ''foo''" by simp
  have st: "io_ReadAll [(E, EOF)] = Inr E" for E by simp
  from round_trip_builtin_codecs [of FormatGzip example_lib, OF _ rd] example_lib_round_trips
  have 1: "\<exists>c op1 E op2.
      NewClient example_lib [\<lparr>Format = FormatGzip, Compressor = None, Decompressor = None\<rparr>] = Inr c \<and>
      Compress c None [(''fo'', More), (''o'', EOF)] = Returns op1 \<and>
      errCh (finished op1) = [None] \<and> drain_output (finished op1) = {Some (Inr E)} \<and>
      Decompress c None [(E, EOF)] = Returns op2 \<and>
      errCh (finished op2) = [None] \<and> drain_output (finished op2) = {Some (Inr ''foo'')}"
    using st by (metis (no_types, lifting))
  from round_trip_builtin_codecs [of FormatNoop example_lib, OF _ rd]
  have 2: "\<exists>c op1 E op2.
      NewClient example_lib [\<lparr>Format = FormatNoop, Compressor = None, Decompressor = None\<rparr>] = Inr c \<and>
      Compress c None [(''fo'', More), (''o'', EOF)] = Returns op1 \<and>
      errCh (finished op1) = [None] \<and> drain_output (finished op1) = {Some (Inr E)} \<and>
      Decompress c None [(E, EOF)] = Returns op2 \<and>
      errCh (finished op2) = [None] \<and> drain_output (finished op2) = {Some (Inr ''foo'')}"
    using st by (metis (no_types, lifting))
  from 1 2 show ?thesis by blast
qed

text \<open>
  C5. The passthrough codec is the identity on the byte stream: for every input stream
  that delivers the bytes \<open>D\<close>, \<open>Compress\<close> with the \<open>noop\<close> client puts exactly \<open>D\<close> on its
  output stream and reports no error, and so does \<open>Decompress\<close>.
\<close>

theorem noop_codec_is_identity:
  assumes c: "NewClient lib [\<lparr>Format = FormatNoop, Compressor = None, Decompressor = None\<rparr>] = Inr c"
      and rd: "io_ReadAll input = Inr D"
  shows "(\<exists>op. Compress c None input = Returns op \<and> drain_output (finished op) = {Some (Inr D)} \<and>
               errCh (finished op) = [None]) \<and>
         (\<exists>op. Decompress c None input = Returns op \<and> drain_output (finished op) = {Some (Inr D)} \<and>
               errCh (finished op) = [None])"
proof -
  from c have cc: "compressor c = Some (\<lambda>a. a)" and cd: "decompressor c = Some (\<lambda>a. Inr (io_NopCloser a))"
    by (auto simp: NewClient_noop noopConfig_def)
  from Compress_finished [OF cc, of None input] compress_task_noop_ok [OF rd]
  have "\<exists>op. Compress c None input = Returns op \<and> drain_output (finished op) = {Some (Inr D)} \<and>
               errCh (finished op) = [None]"
    by (auto simp: drain_output_def)
  moreover
  have "io_ReadAll (reads (io_NopCloser input)) = Inr D" "close_result (io_NopCloser input) = None"
    using rd by (simp_all add: io_NopCloser_def)
  from Decompress_finished [OF cd, of input "io_NopCloser input" None] decompress_task_ok [OF this]
  have "\<exists>op. Decompress c None input = Returns op \<and> drain_output (finished op) = {Some (Inr D)} \<and>
               errCh (finished op) = [None]"
    by (auto simp: drain_output_def)
  ultimately show ?thesis by blast
qed

theorem noop_codec_is_identity_witness:
  "(\<exists>op. Compress \<lparr>compressor = Compressor noopConfig, decompressor = Decompressor noopConfig\<rparr> None
            [(''fo'', More), (''o'', EOF)] = Returns op \<and>
         drain_output (finished op) = {Some (Inr ''foo'')} \<and> errCh (finished op) = [None]) \<and>
   (\<exists>op. Decompress \<lparr>compressor = Compressor noopConfig, decompressor = Decompressor noopConfig\<rparr> None
            [(''fo'', More), (''o'', EOF)] = Returns op \<and>
         drain_output (finished op) = {Some (Inr ''foo'')} \<and> errCh (finished op) = [None])"
  using noop_codec_is_identity [OF NewClient_noop, of "[(''fo'', More), (''o'', EOF)]" "''foo''"]
  by simp

text \<open>
  C6, as amended. When exactly one of the two overrides is set, \<open>NewClient\<close> fails, and the
  error names the override that is missing: its message is
  \<open>validating configuration: decompressor must be configured\<close> when only the compressor
  is set and \<open>validating configuration: compressor must be configured\<close> when only the
  decompressor is set.
\<close>

theorem NewClient_partial_override:
  assumes "(Compressor config = None) \<noteq> (Decompressor config = None)"
  shows "NewClient lib [config] =
         Inl (Wrapped ''validating configuration: ''
               (ErrorString (if Decompressor config = None then ''decompressor must be configured''
                             else ''compressor must be configured'')))"
  using assms by (auto simp add: NewClient_def selectFormat_def validate_def)

theorem NewClient_partial_override_witness:
  "NewClient example_lib
     [\<lparr>Format = FormatNoop, Compressor = Compressor noopConfig, Decompressor = None\<rparr>] =
   Inl (Wrapped ''validating configuration: '' (ErrorString ''decompressor must be configured'')) \<and>
   NewClient example_lib
     [\<lparr>Format = FormatNoop, Compressor = None, Decompressor = Decompressor noopConfig\<rparr>] =
   Inl (Wrapped ''validating configuration: '' (ErrorString ''compressor must be configured''))"
  using NewClient_partial_override
    [of "\<lparr>Format = FormatNoop, Compressor = Compressor noopConfig, Decompressor = None\<rparr>" example_lib]
    NewClient_partial_override
    [of "\<lparr>Format = FormatNoop, Compressor = None, Decompressor = Decompressor noopConfig\<rparr>" example_lib]
  by (simp add: noopConfig_def)

text \<open>
  The claim as it was stated gives the error the message
  \<open>must configure both compressor and decompressor\<close>. With only the compressor set, the
  message of the error is another one and does not contain that text.
\<close>

theorem NewClient_partial_override_counterexample:
  "NewClient example_lib
     [\<lparr>Format = [], Compressor = Compressor noopConfig, Decompressor = None\<rparr>] =
   Inl (Wrapped ''validating configuration: '' (ErrorString ''decompressor must be configured'')) \<and>
   Error (Wrapped ''validating configuration: '' (ErrorString ''decompressor must be configured'')) =
     ''validating configuration: decompressor must be configured'' \<and>
   \<not> Contains (Error (Wrapped ''validating configuration: ''
                   (ErrorString ''decompressor must be configured'')))
        ''must configure both compressor and decompressor''"
  by (simp add: NewClient_def selectFormat_def validate_def noopConfig_def)

text \<open>
  C7, as amended. For a format that is neither \<open>gzip\<close>, \<open>noop\<close> nor empty, and no
  override, \<open>NewClient\<close> fails and the message of the error is
  \<open>unknown compression format \<close> followed by the format as \<open>%q\<close> prints it, that is quoted
  by \<open>strconv.Quote\<close>. The message contains the format itself whenever the format is made
  of printable ASCII characters other than the double quote and the backslash, which
  quoting leaves as they are.
\<close>

theorem unknown_format_error:
  assumes "f \<noteq> FormatGzip" and "f \<noteq> []" and "f \<noteq> FormatNoop"
  shows "NewClient lib [\<lparr>Format = f, Compressor = None, Decompressor = None\<rparr>] =
           Inl (ErrorString (''unknown compression format '' @ strconv_Quote (quoteRune lib) f)) \<and>
         Contains (''unknown compression format '' @ strconv_Quote (quoteRune lib) f)
           (strconv_Quote (quoteRune lib) f) \<and>
         ((\<forall>c \<in> set f. IsPrint c \<and> c \<noteq> CHR 0x22 \<and> c \<noteq> CHR 0x5C) \<longrightarrow>
            strconv_Quote (quoteRune lib) f = CHR 0x22 # f @ [CHR 0x22] \<and>
            Contains (''unknown compression format '' @ strconv_Quote (quoteRune lib) f) f)"
proof -
  have 1: "NewClient lib [\<lparr>Format = f, Compressor = None, Decompressor = None\<rparr>] =
           Inl (ErrorString (''unknown compression format '' @ strconv_Quote (quoteRune lib) f))"
    using assms by (simp add: NewClient_def selectFormat_def)
  have "''unknown compression format '' @ strconv_Quote (quoteRune lib) f =
        ''unknown compression format '' @ strconv_Quote (quoteRune lib) f @ []" by simp
  then have 2: "Contains (''unknown compression format '' @ strconv_Quote (quoteRune lib) f)
           (strconv_Quote (quoteRune lib) f)"
    unfolding Contains_iff by blast
  have 3: "strconv_Quote (quoteRune lib) f = CHR 0x22 # f @ [CHR 0x22] \<and>
            Contains (''unknown compression format '' @ strconv_Quote (quoteRune lib) f) f"
    if plain: "\<forall>c \<in> set f. IsPrint c \<and> c \<noteq> CHR 0x22 \<and> c \<noteq> CHR 0x5C"
  proof -
    have q: "strconv_Quote (quoteRune lib) f = CHR 0x22 # f @ [CHR 0x22]"
      using appendQuoted_plain [OF plain] by (simp add: strconv_Quote_def)
    have "''unknown compression format '' @ strconv_Quote (quoteRune lib) f =
          (''unknown compression format '' @ [CHR 0x22]) @ f @ [CHR 0x22]"
      by (simp add: q)
    then have "Contains (''unknown compression format '' @ strconv_Quote (quoteRune lib) f) f"
      unfolding Contains_iff by blast
    with q show ?thesis by simp
  qed
  from 1 2 3 show ?thesis by blast
qed

theorem unknown_format_error_witness:
  "NewClient example_lib [\<lparr>Format = ''badFormat'', Compressor = None, Decompressor = None\<rparr>] =
     Inl (ErrorString (''unknown compression format '' @ CHR 0x22 # ''badFormat'' @ [CHR 0x22])) \<and>
   Contains (''unknown compression format '' @ CHR 0x22 # ''badFormat'' @ [CHR 0x22]) ''badFormat''"
  using unknown_format_error [of "''badFormat''" example_lib]
  by (simp add: FormatGzip_def FormatNoop_def IsPrint_def)

text \<open>
  The claim as it was stated has the message contain every unknown format verbatim. The
  format of the three characters \<open>a\<close>, double quote, \<open>b\<close> is printed with a backslash
  before the double quote, and the message does not contain the format.
\<close>

theorem unknown_format_error_counterexample:
  "NewClient example_lib
     [\<lparr>Format = [CHR ''a'', CHR 0x22, CHR ''b''], Compressor = None, Decompressor = None\<rparr>] =
     Inl (ErrorString (''unknown compression format '' @
            [CHR 0x22, CHR ''a'', CHR 0x5C, CHR 0x22, CHR ''b'', CHR 0x22])) \<and>
   \<not> Contains (''unknown compression format '' @
                [CHR 0x22, CHR ''a'', CHR 0x5C, CHR 0x22, CHR ''b'', CHR 0x22])
        [CHR ''a'', CHR 0x22, CHR ''b'']"
  by (simp add: NewClient_def selectFormat_def FormatGzip_def FormatNoop_def
      strconv_Quote_def appendEscapedRune_def IsPrint_def)




text \<open>
  C10. When both overrides are set, \<open>NewClient\<close> succeeds whatever the format is, and the
  client holds the two overrides as they were given: the format is not looked at.
\<close>

theorem NewClient_both_overrides:
  assumes "Compressor config = Some nc" and "Decompressor config = Some nd"
  shows "NewClient lib [config] = Inr \<lparr>compressor = Some nc, decompressor = Some nd\<rparr>"
  using assms by (simp add: NewClient_def selectFormat_def validate_def)

theorem NewClient_both_overrides_witness:
  "NewClient example_lib
     [\<lparr>Format = ''badFormat'', Compressor = Compressor noopConfig,
       Decompressor = Decompressor noopConfig\<rparr>] =
   Inr \<lparr>compressor = Compressor noopConfig, decompressor = Decompressor noopConfig\<rparr> \<and>
   NewClient example_lib [\<lparr>Format = ''badFormat'', Compressor = None, Decompressor = None\<rparr>] =
   Inl (ErrorString (''unknown compression format '' @ CHR 0x22 # ''badFormat'' @ [CHR 0x22]))"
  using NewClient_both_overrides
    [of "\<lparr>Format = ''badFormat'', Compressor = Compressor noopConfig,
          Decompressor = Decompressor noopConfig\<rparr>" "\<lambda>a. a" "\<lambda>a. Inr (io_NopCloser a)" example_lib]
  by (simp add: noopConfig_def NewClient_def selectFormat_def FormatGzip_def FormatNoop_def
      strconv_Quote_def appendEscapedRune_def IsPrint_def)

end
